theory Spec2Isabelle
  imports Main "HOL-Library.Sublist"
begin

section \<open>The configuration record of \<^verbatim>\<open>config.go\<close>\<close>

text \<open>
  Go strings are byte sequences, modelled as \<^typ>\<open>string\<close> (a list of 8-bit characters).
  A \<^verbatim>\<open>*regexp.Regexp\<close> field is an option: \<^term>\<open>None\<close> is the nil pointer.  The type
  \<open>'re\<close> of compiled patterns is a parameter, since compilation belongs to Go's library.
  \<^verbatim>\<open>Concurrency\<close> is a Go \<^verbatim>\<open>int\<close>; it is only compared with 1, never computed with,
  so it is modelled as \<^typ>\<open>int\<close>.
\<close>

record 're Config =
  PhraseRegex :: string
  PhraseRegexp :: "'re option"
  SearchDir :: string
  FileRegex :: string
  FileRegexp :: "'re option"
  Deduplicate :: bool
  Extended :: bool
  IPsOnly :: bool
  Output :: string
  ArchiveRegex :: string
  ArchiveRegexp :: "'re option"
  IncludeArchives :: bool
  Concurrency :: int

definition FormatJSON :: string where
  "FormatJSON = ''json''"

definition FormatText :: string where
  "FormatText = ''text''"

text \<open>
  \<^verbatim>\<open>NewConfig\<close>: the fields the composite literal does not name have Go's zero value.
  The argument stands for the result of \<^verbatim>\<open>runtime.NumCPU()\<close>.  A string literal
  of HOL cannot hold a backslash, so the backslash of the two raw string literals is
  written \<^term>\<open>CHR 0x5C\<close>.
\<close>

definition NewConfig :: "int \<Rightarrow> 're Config" where
  "NewConfig numCPU =
     \<lparr> PhraseRegex = [],
       PhraseRegexp = None,
       SearchDir = ''.'',
       FileRegex = ''.*'' @ [CHR 0x5C] @ ''.log$'',
       FileRegexp = None,
       Deduplicate = False,
       Extended = False,
       IPsOnly = False,
       Output = FormatText,
       ArchiveRegex = [CHR 0x5C] @ ''.(7z|bz2|gz|tar|xz|zip|xz|zst|lz)$'',
       ArchiveRegexp = None,
       IncludeArchives = False,
       Concurrency = max 1 numCPU \<rparr>"

section \<open>Library functions used by \<^verbatim>\<open>Validate\<close>\<close>

text \<open>
  \<^verbatim>\<open>strings.ToLower\<close> on bytes: the ASCII capitals \<^verbatim>\<open>A\<close>..\<^verbatim>\<open>Z\<close> (65..90) move to
  \<^verbatim>\<open>a\<close>..\<^verbatim>\<open>z\<close>, every other byte is kept.  This is Go's result on ASCII strings; bytes
  above 127 (where Go maps Unicode letters) are left as they are.
\<close>

definition toLowerByte :: "char \<Rightarrow> char" where
  "toLowerByte c =
     (let n = (of_char c :: nat) in if 65 \<le> n \<and> n \<le> 90 then char_of (n + 32) else c)"

definition ToLower :: "string \<Rightarrow> string" where
  "ToLower s = map toLowerByte s"

text \<open>The result of \<^verbatim>\<open>os.Stat\<close> as far as \<^verbatim>\<open>Validate\<close> reads it.\<close>

record FileInfo =
  IsDir :: bool

section \<open>Errors\<close>

text \<open>
  One constructor for each \<^verbatim>\<open>return\<close> of an error in \<^verbatim>\<open>Validate\<close>, in source order.
  \<open>'e\<close> is the error type of \<^verbatim>\<open>regexp.Compile\<close>, \<open>'f\<close> that of \<^verbatim>\<open>os.Stat\<close>; a
  wrapped error (\<^verbatim>\<open>%w\<close>) is the constructor's argument.
\<close>

datatype ('e, 'f) error =
    ErrRegexRequired                              \<comment> \<open>\<^verbatim>\<open>regex is required\<close>\<close>
  | ErrInvalidRegex 'e                            \<comment> \<open>\<^verbatim>\<open>invalid regex: %w\<close>\<close>
  | ErrSearchDirRequired                          \<comment> \<open>\<^verbatim>\<open>search dir is required\<close>\<close>
  | ErrInvalidSearchDir 'f                        \<comment> \<open>\<^verbatim>\<open>invalid search dir: %w\<close>\<close>
  | ErrSearchDirNotDirectory                      \<comment> \<open>\<^verbatim>\<open>search dir is not a directory\<close>\<close>
  | ErrFileRegexRequired                          \<comment> \<open>\<^verbatim>\<open>file regex is required\<close>\<close>
  | ErrInvalidFileRegex 'e                        \<comment> \<open>\<^verbatim>\<open>invalid file regex: %w\<close>\<close>
  | ErrInvalidOutputFormat string "string list"  \<comment> \<open>\<^verbatim>\<open>invalid output format %q: must be one of %v\<close>\<close>
  | ErrMutuallyExclusive                          \<comment> \<open>\<^verbatim>\<open>extended and ips only flags are mutually exclusive\<close>\<close>
  | ErrInvalidArchiveRegex 'e                     \<comment> \<open>\<^verbatim>\<open>invalid archive regex: %w\<close>\<close>
  | ErrConcurrency                                \<comment> \<open>\<^verbatim>\<open>concurrency must be greater than 0\<close>\<close>

section \<open>\<^verbatim>\<open>isOneOf\<close> and \<^verbatim>\<open>Validate\<close>\<close>

fun isOneOf :: "string \<Rightarrow> string list \<Rightarrow> bool" where
  "isOneOf s [] = False"
| "isOneOf s (v # values) = (if s = v then True else isOneOf s values)"

text \<open>
  \<^verbatim>\<open>Validate\<close> mutates the receiver and returns an error or nil.  The model takes the
  configuration and returns the configuration as the call leaves it, paired with the
  returned error (\<^term>\<open>None\<close> is nil).  \<open>compile\<close> is \<^verbatim>\<open>regexp.Compile\<close> and \<open>stat\<close>
  is \<^verbatim>\<open>os.Stat\<close>; both return \<^term>\<open>Inl\<close> of their error.
\<close>

definition Validate ::
  "(string \<Rightarrow> 'e + 're) \<Rightarrow> (string \<Rightarrow> 'f + FileInfo) \<Rightarrow> 're Config
     \<Rightarrow> 're Config \<times> ('e, 'f) error option" where
  "Validate compile stat cfg =
    (if PhraseRegex cfg = [] then (cfg, Some ErrRegexRequired)
     else case compile (PhraseRegex cfg) of
       Inl err \<Rightarrow> (cfg, Some (ErrInvalidRegex err))
     | Inr re \<Rightarrow>
    (let cfg1 = cfg\<lparr>PhraseRegexp := Some re\<rparr> in
     if SearchDir cfg1 = [] then (cfg1, Some ErrSearchDirRequired)
     else case stat (SearchDir cfg1) of
       Inl err \<Rightarrow> (cfg1, Some (ErrInvalidSearchDir err))
     | Inr fi \<Rightarrow>
    (if \<not> IsDir fi then (cfg1, Some ErrSearchDirNotDirectory)
     else if FileRegex cfg1 = [] then (cfg1, Some ErrFileRegexRequired)
     else case compile (FileRegex cfg1) of
       Inl err \<Rightarrow> (cfg1, Some (ErrInvalidFileRegex err))
     | Inr re \<Rightarrow>
    (let cfg2 = cfg1\<lparr>FileRegexp := Some re\<rparr>;
         allowed = [FormatJSON, FormatText];
         lOutput = ToLower (Output cfg2)
     in
     if \<not> isOneOf lOutput allowed
     then (cfg2, Some (ErrInvalidOutputFormat (Output cfg2) allowed))
     else
    (let cfg3 = cfg2\<lparr>Output := lOutput\<rparr> in
     if Extended cfg3 \<and> IPsOnly cfg3 then (cfg3, Some ErrMutuallyExclusive)
     else case
       (if IncludeArchives cfg3 \<or> ArchiveRegex cfg3 \<noteq> []
        then (case compile (ArchiveRegex cfg3) of
                Inl err \<Rightarrow> Inl err
              | Inr re \<Rightarrow> Inr (cfg3\<lparr>ArchiveRegexp := Some re\<rparr>))
        else Inr cfg3) of
       Inl err \<Rightarrow> (cfg3, Some (ErrInvalidArchiveRegex err))
     | Inr cfg4 \<Rightarrow>
    (if Concurrency cfg4 < 1 then (cfg4, Some ErrConcurrency)
     else (cfg4, None)))))))"

section \<open>The error kinds of the specification\<close>

text \<open>
  The specification names error kinds, not messages.  \<open>kind_of\<close> reads each error that
  \<^verbatim>\<open>Validate\<close> returns as the kind the specification gives to that check.
\<close>

datatype 'f path_reason =
    Inaccessible 'f
  | NotADirectory

datatype ('e, 'f) error_kind =
    MissingRequiredField string
  | InvalidPattern string 'e
  | InvalidPath "'f path_reason"
  | InvalidEnumValue string string "string list"
  | MutuallyExclusiveFlags string string
  | InvalidRange string int

fun kind_of :: "('e, 'f) error \<Rightarrow> ('e, 'f) error_kind" where
  "kind_of ErrRegexRequired = MissingRequiredField ''phrase regex''"
| "kind_of (ErrInvalidRegex err) = InvalidPattern ''phrase'' err"
| "kind_of ErrSearchDirRequired = MissingRequiredField ''search dir''"
| "kind_of (ErrInvalidSearchDir err) = InvalidPath (Inaccessible err)"
| "kind_of ErrSearchDirNotDirectory = InvalidPath NotADirectory"
| "kind_of ErrFileRegexRequired = MissingRequiredField ''file regex''"
| "kind_of (ErrInvalidFileRegex err) = InvalidPattern ''file'' err"
| "kind_of (ErrInvalidOutputFormat v allowed) = InvalidEnumValue ''output'' v allowed"
| "kind_of ErrMutuallyExclusive = MutuallyExclusiveFlags ''extended'' ''ips-only''"
| "kind_of (ErrInvalidArchiveRegex err) = InvalidPattern ''archive'' err"
| "kind_of ErrConcurrency = InvalidRange ''concurrency'' 1"

section \<open>The validation sequence as the specification lists it\<close>

text \<open>
  The specification gives \<^verbatim>\<open>Validate\<close> as ten numbered checks, run in order, the first
  failure ending the run.  Each check is written here from the specification's words:
  it either fails with an error kind or hands on the (possibly updated) configuration.
  \<open>run_checks\<close> runs a list of checks and stops at the first failure, returning the
  configuration as it stood when the failing check was reached.
\<close>

type_synonym ('re, 'e, 'f) check = "'re Config \<Rightarrow> ('e, 'f) error_kind + 're Config"

definition check_phrase_nonempty :: "('re, 'e, 'f) check" where
  "check_phrase_nonempty cfg =
     (if PhraseRegex cfg = [] then Inl (MissingRequiredField ''phrase regex'') else Inr cfg)"

definition check_phrase_compiles :: "(string \<Rightarrow> 'e + 're) \<Rightarrow> ('re, 'e, 'f) check" where
  "check_phrase_compiles compile cfg =
     (case compile (PhraseRegex cfg) of
        Inl err \<Rightarrow> Inl (InvalidPattern ''phrase'' err)
      | Inr re \<Rightarrow> Inr (cfg\<lparr>PhraseRegexp := Some re\<rparr>))"

definition check_dir_nonempty :: "('re, 'e, 'f) check" where
  "check_dir_nonempty cfg =
     (if SearchDir cfg = [] then Inl (MissingRequiredField ''search dir'') else Inr cfg)"

definition check_dir_exists :: "(string \<Rightarrow> 'f + FileInfo) \<Rightarrow> ('re, 'e, 'f) check" where
  "check_dir_exists stat cfg =
     (case stat (SearchDir cfg) of
        Inl err \<Rightarrow> Inl (InvalidPath (Inaccessible err))
      | Inr fi \<Rightarrow> if IsDir fi then Inr cfg else Inl (InvalidPath NotADirectory))"

definition check_file_nonempty :: "('re, 'e, 'f) check" where
  "check_file_nonempty cfg =
     (if FileRegex cfg = [] then Inl (MissingRequiredField ''file regex'') else Inr cfg)"

definition check_file_compiles :: "(string \<Rightarrow> 'e + 're) \<Rightarrow> ('re, 'e, 'f) check" where
  "check_file_compiles compile cfg =
     (case compile (FileRegex cfg) of
        Inl err \<Rightarrow> Inl (InvalidPattern ''file'' err)
      | Inr re \<Rightarrow> Inr (cfg\<lparr>FileRegexp := Some re\<rparr>))"

definition check_output_format :: "('re, 'e, 'f) check" where
  "check_output_format cfg =
     (if ToLower (Output cfg) = ''json'' \<or> ToLower (Output cfg) = ''text''
      then Inr (cfg\<lparr>Output := ToLower (Output cfg)\<rparr>)
      else Inl (InvalidEnumValue ''output'' (Output cfg) [''json'', ''text'']))"

definition check_exclusive_flags :: "('re, 'e, 'f) check" where
  "check_exclusive_flags cfg =
     (if Extended cfg \<and> IPsOnly cfg
      then Inl (MutuallyExclusiveFlags ''extended'' ''ips-only'') else Inr cfg)"

definition check_archive_pattern :: "(string \<Rightarrow> 'e + 're) \<Rightarrow> ('re, 'e, 'f) check" where
  "check_archive_pattern compile cfg =
     (if IncludeArchives cfg \<or> ArchiveRegex cfg \<noteq> []
      then (case compile (ArchiveRegex cfg) of
              Inl err \<Rightarrow> Inl (InvalidPattern ''archive'' err)
            | Inr re \<Rightarrow> Inr (cfg\<lparr>ArchiveRegexp := Some re\<rparr>))
      else Inr cfg)"

definition check_concurrency :: "('re, 'e, 'f) check" where
  "check_concurrency cfg =
     (if 1 \<le> Concurrency cfg then Inr cfg else Inl (InvalidRange ''concurrency'' 1))"

definition spec_checks ::
  "(string \<Rightarrow> 'e + 're) \<Rightarrow> (string \<Rightarrow> 'f + FileInfo) \<Rightarrow> ('re, 'e, 'f) check list" where
  "spec_checks compile stat =
     [check_phrase_nonempty, check_phrase_compiles compile,
      check_dir_nonempty, check_dir_exists stat,
      check_file_nonempty, check_file_compiles compile,
      check_output_format, check_exclusive_flags,
      check_archive_pattern compile, check_concurrency]"

fun run_checks ::
  "('re, 'e, 'f) check list \<Rightarrow> 're Config \<Rightarrow> 're Config \<times> ('e, 'f) error_kind option" where
  "run_checks [] cfg = (cfg, None)"
| "run_checks (c # cs) cfg =
     (case c cfg of Inl k \<Rightarrow> (cfg, Some k) | Inr cfg' \<Rightarrow> run_checks cs cfg')"

text \<open>Equality of two strings up to the case of ASCII letters.\<close>

definition equal_ignoring_case :: "string \<Rightarrow> string \<Rightarrow> bool" where
  "equal_ignoring_case s t = (ToLower s = ToLower t)"

section \<open>A fragment of Go's \<^verbatim>\<open>regexp\<close> package\<close>

text \<open>
  What the two default patterns match, and what the empty pattern matches, is decided by
  Go's \<^verbatim>\<open>regexp\<close> package, a library outside the repository; what follows is written
  from the documented syntax and semantics of that package.  The fragment of its
  syntax that these patterns use is modelled here: literal bytes, \<^verbatim>\<open>.\<close>, an escaped punctuation byte, \<^verbatim>\<open>*\<close>, \<^verbatim>\<open>|\<close>, capture groups and
  \<^verbatim>\<open>$\<close>, under the flags of \<^verbatim>\<open>regexp.Compile\<close> (\<^verbatim>\<open>.\<close> does not match a newline, \<^verbatim>\<open>$\<close>
  matches only at the end of the text).  A pattern outside the fragment gets the answer
  \<open>Unsupported\<close>, which is not an error of Go and about which nothing is claimed:
  everything proved of \<^verbatim>\<open>Validate\<close> for arbitrary patterns is proved for an arbitrary
  compile function.
\<close>

datatype rexp =
    EmptyMatch
  | Lit char
  | AnyCharNotNL
  | EndText
  | Capture rexp
  | Star rexp
  | Concat rexp rexp
  | Alternate rexp rexp

datatype compile_error =
    ErrMissingParen
  | ErrUnexpectedParen
  | ErrMissingRepeatArgument
  | ErrInvalidRepeatOp
  | ErrTrailingBackslash
  | Unsupported

text \<open>
  The parser reads the pattern from left to right, as Go's does.  A frame holds what has
  been read of one group (or of the whole pattern): the finished alternatives and the
  items of the alternative being read, both newest first.  \<^verbatim>\<open>(\<close> opens a frame, \<^verbatim>\<open>|\<close>
  closes an alternative, \<^verbatim>\<open>)\<close> closes the frame into a capture group of the frame below.
\<close>

fun concat_of :: "rexp list \<Rightarrow> rexp" where
  "concat_of [] = EmptyMatch"
| "concat_of [r] = r"
| "concat_of (r # rs) = Concat r (concat_of rs)"

fun alternate_of :: "rexp \<Rightarrow> rexp list \<Rightarrow> rexp" where
  "alternate_of r [] = r"
| "alternate_of r (x # xs) = Alternate r (alternate_of x xs)"

type_synonym frame = "rexp list \<times> rexp list"

definition close_frame :: "frame \<Rightarrow> rexp" where
  "close_frame f =
     (case rev (concat_of (rev (snd f)) # fst f) of
        [] \<Rightarrow> EmptyMatch
      | r # rs \<Rightarrow> alternate_of r rs)"

definition isalnum :: "char \<Rightarrow> bool" where
  "isalnum c =
     (let n = (of_char c :: nat)
      in (48 \<le> n \<and> n \<le> 57) \<or> (65 \<le> n \<and> n \<le> 90) \<or> (97 \<le> n \<and> n \<le> 122))"

fun parse :: "bool \<Rightarrow> frame \<Rightarrow> frame list \<Rightarrow> string \<Rightarrow> compile_error + rexp" where
  "parse lastRepeat cur stack [] =
     (if stack = [] then Inr (close_frame cur) else Inl ErrMissingParen)"
| "parse lastRepeat cur stack (c # t) =
     (if c = CHR ''('' then parse False ([], []) (cur # stack) t
      else if c = CHR ''|'' then parse False (concat_of (rev (snd cur)) # fst cur, []) stack t
      else if c = CHR '')'' then
        (case stack of
           [] \<Rightarrow> Inl ErrUnexpectedParen
         | up # stack' \<Rightarrow> parse False (fst up, Capture (close_frame cur) # snd up) stack' t)
      else if c = CHR ''$'' then parse False (fst cur, EndText # snd cur) stack t
      else if c = CHR ''.'' then parse False (fst cur, AnyCharNotNL # snd cur) stack t
      else if c = CHR ''*'' then
        (if lastRepeat then Inl ErrInvalidRepeatOp
         else case snd cur of
           [] \<Rightarrow> Inl ErrMissingRepeatArgument
         | sub # below \<Rightarrow> parse True (fst cur, Star sub # below) stack t)
      else if c = CHR 0x5C then
        (case t of
           [] \<Rightarrow> Inl ErrTrailingBackslash
         | e # t' \<Rightarrow>
             if isalnum e then Inl Unsupported
             else parse False (fst cur, Lit e # snd cur) stack t')
      else if c \<in> set ''^[+?{'' then Inl Unsupported
      else parse False (fst cur, Lit c # snd cur) stack t)"

text \<open>
  \<^verbatim>\<open>regexp.Compile\<close> on the fragment.  Go rejects invalid UTF-8 before it parses and
  limits the size and nesting of a pattern; patterns with a byte above 127 or longer
  than 255 bytes are left outside the fragment.
\<close>

definition regexp_Compile :: "string \<Rightarrow> compile_error + rexp" where
  "regexp_Compile expr =
     (if 255 < length expr \<or> (\<exists>c \<in> set expr. 128 \<le> (of_char c :: nat)) then Inl Unsupported
      else parse False ([], []) [] expr)"

text \<open>
  Matching.  \<open>run r s\<close> lists what can remain of \<open>s\<close> after \<open>r\<close> has matched a prefix of
  it.  An iteration of a star that consumes nothing adds no new remainder, so the star
  only follows iterations that shorten the input.  \<open>MatchString\<close> is Go's
  \<^verbatim>\<open>(*Regexp).MatchString\<close>: the pattern matches somewhere in the string.
\<close>

function run :: "rexp \<Rightarrow> string \<Rightarrow> string list" where
  "run EmptyMatch s = [s]"
| "run (Lit c) s = (case s of [] \<Rightarrow> [] | x # t \<Rightarrow> if x = c then [t] else [])"
| "run AnyCharNotNL s = (case s of [] \<Rightarrow> [] | x # t \<Rightarrow> if x \<noteq> CHR 0x0A then [t] else [])"
| "run EndText s = (if s = [] then [s] else [])"
| "run (Capture r) s = run r s"
| "run (Concat r1 r2) s = concat (map (run r2) (run r1 s))"
| "run (Alternate r1 r2) s = run r1 s @ run r2 s"
| "run (Star r) s =
     s # concat (map (run (Star r)) (filter (\<lambda>t. length t < length s) (run r s)))"
  by pat_completeness auto
termination
  by (relation "(\<lambda>p. size (fst p)) <*mlex*> measure (\<lambda>p. length (snd p))")
     (auto simp: wf_mlex mlex_less mlex_leq)

fun MatchString :: "rexp \<Rightarrow> string \<Rightarrow> bool" where
  "MatchString re [] = (run re [] \<noteq> [])"
| "MatchString re (c # s) = (run re (c # s) \<noteq> [] \<or> MatchString re s)"

section \<open>A file system for the examples\<close>

text \<open>
  \<^verbatim>\<open>os.Stat\<close> on a file system that holds the directories \<^verbatim>\<open>.\<close> and \<^verbatim>\<open>logs\<close> and the
  regular file \<^verbatim>\<open>server.log\<close>, and nothing else.
\<close>

datatype stat_error = ErrNotExist

definition example_stat :: "string \<Rightarrow> stat_error + FileInfo" where
  "example_stat name =
     (if name = ''.'' \<or> name = ''logs'' then Inr \<lparr>IsDir = True\<rparr>
      else if name = ''server.log'' then Inr \<lparr>IsDir = False\<rparr>
      else Inl ErrNotExist)"

section \<open>Reaching a check\<close>

text \<open>
  \<^verbatim>\<open>Validate\<close> comes to a check only when no earlier \<^verbatim>\<open>return\<close> was taken.  The
  predicates below say, in terms of the configuration that is passed in, that the
  first six, seven, eight and nine checks of the source are passed: each conjunct is
  the negation of the condition of one \<^verbatim>\<open>if\<close> that returns an error.
\<close>

definition reaches_output_check ::
  "(string \<Rightarrow> 'e + 're) \<Rightarrow> (string \<Rightarrow> 'f + FileInfo) \<Rightarrow> 're Config \<Rightarrow> bool" where
  "reaches_output_check compile stat cfg =
     (PhraseRegex cfg \<noteq> [] \<and> \<not> isl (compile (PhraseRegex cfg)) \<and>
      SearchDir cfg \<noteq> [] \<and>
      (case stat (SearchDir cfg) of Inl err \<Rightarrow> False | Inr fi \<Rightarrow> IsDir fi) \<and>
      FileRegex cfg \<noteq> [] \<and> \<not> isl (compile (FileRegex cfg)))"

definition reaches_flags_check ::
  "(string \<Rightarrow> 'e + 're) \<Rightarrow> (string \<Rightarrow> 'f + FileInfo) \<Rightarrow> 're Config \<Rightarrow> bool" where
  "reaches_flags_check compile stat cfg =
     (reaches_output_check compile stat cfg \<and>
      isOneOf (ToLower (Output cfg)) [FormatJSON, FormatText])"

definition reaches_archive_check ::
  "(string \<Rightarrow> 'e + 're) \<Rightarrow> (string \<Rightarrow> 'f + FileInfo) \<Rightarrow> 're Config \<Rightarrow> bool" where
  "reaches_archive_check compile stat cfg =
     (reaches_flags_check compile stat cfg \<and> \<not> (Extended cfg \<and> IPsOnly cfg))"

definition reaches_concurrency_check ::
  "(string \<Rightarrow> 'e + 're) \<Rightarrow> (string \<Rightarrow> 'f + FileInfo) \<Rightarrow> 're Config \<Rightarrow> bool" where
  "reaches_concurrency_check compile stat cfg =
     (reaches_archive_check compile stat cfg \<and>
      (if IncludeArchives cfg \<or> ArchiveRegex cfg \<noteq> []
       then \<not> isl (compile (ArchiveRegex cfg)) else True))"

section \<open>Example configurations\<close>

text \<open>
  The three patterns that the examples compile, as the parser builds them:
  \<^verbatim>\<open>kill\<close>, the default file pattern and the default archive pattern.
\<close>

definition kill_rexp :: rexp where
  "kill_rexp =
     Concat (Lit CHR ''k'') (Concat (Lit CHR ''i'') (Concat (Lit CHR ''l'') (Lit CHR ''l'')))"

definition dot_log :: rexp where
  "dot_log =
     Concat (Lit CHR ''.'')
       (Concat (Lit CHR ''l'') (Concat (Lit CHR ''o'') (Concat (Lit CHR ''g'') EndText)))"

definition file_rexp :: rexp where
  "file_rexp = Concat (Star AnyCharNotNL) dot_log"

definition extensions :: rexp where
  "extensions =
     Alternate (Concat (Lit CHR ''7'') (Lit CHR ''z''))
       (Alternate (Concat (Lit CHR ''b'') (Concat (Lit CHR ''z'') (Lit CHR ''2'')))
         (Alternate (Concat (Lit CHR ''g'') (Lit CHR ''z''))
           (Alternate (Concat (Lit CHR ''t'') (Concat (Lit CHR ''a'') (Lit CHR ''r'')))
             (Alternate (Concat (Lit CHR ''x'') (Lit CHR ''z''))
               (Alternate (Concat (Lit CHR ''z'') (Concat (Lit CHR ''i'') (Lit CHR ''p'')))
                 (Alternate (Concat (Lit CHR ''x'') (Lit CHR ''z''))
                   (Alternate (Concat (Lit CHR ''z'') (Concat (Lit CHR ''s'') (Lit CHR ''t'')))
                     (Concat (Lit CHR ''l'') (Lit CHR ''z'')))))))))"

definition archive_rexp :: rexp where
  "archive_rexp = Concat (Lit CHR ''.'') (Concat (Capture extensions) EndText)"

text \<open>
  The scenario of a valid run: the defaults on a host with four processing units, the
  phrase \<^verbatim>\<open>kill\<close> and the output format \<^verbatim>\<open>JSON\<close>; and the configuration that
  \<^verbatim>\<open>Validate\<close> makes of it.
\<close>

definition example_config :: "rexp Config" where
  "example_config = (NewConfig 4)\<lparr>PhraseRegex := ''kill'', Output := ''JSON''\<rparr>"

definition example_validated :: "rexp Config" where
  "example_validated =
     example_config\<lparr>PhraseRegexp := Some kill_rexp, FileRegexp := Some file_rexp,
                    Output := ''json'', ArchiveRegexp := Some archive_rexp\<rparr>"

text \<open>Both flags set, with an output format that is not allowed.\<close>

definition config_both_flags_xml :: "rexp Config" where
  "config_both_flags_xml =
     (NewConfig 4)\<lparr>PhraseRegex := ''kill'', Extended := True, IPsOnly := True,
                   Output := ''xml''\<rparr>"

text \<open>Both flags set, with an archive pattern that does not compile and no workers.\<close>

definition config_both_flags :: "rexp Config" where
  "config_both_flags =
     (NewConfig 4)\<lparr>PhraseRegex := ''kill'', Extended := True, IPsOnly := True,
                   ArchiveRegex := ''('', Concurrency := 0\<rparr>"

text \<open>No workers, with and without a phrase.\<close>

definition config_no_workers :: "rexp Config" where
  "config_no_workers = (NewConfig 4)\<lparr>Concurrency := 0\<rparr>"

definition config_kill_no_workers :: "rexp Config" where
  "config_kill_no_workers = (NewConfig 4)\<lparr>PhraseRegex := ''kill'', Concurrency := 0\<rparr>"

text \<open>The three cases of the archive check.\<close>

definition config_bad_archive :: "rexp Config" where
  "config_bad_archive = (NewConfig 4)\<lparr>PhraseRegex := ''kill'', ArchiveRegex := ''(''\<rparr>"

definition config_no_archives :: "rexp Config" where
  "config_no_archives = (NewConfig 4)\<lparr>PhraseRegex := ''kill'', ArchiveRegex := []\<rparr>"

definition config_archives_empty :: "rexp Config" where
  "config_archives_empty =
     (NewConfig 4)\<lparr>PhraseRegex := ''kill'', ArchiveRegex := [], IncludeArchives := True\<rparr>"

section \<open>Auxiliary facts\<close>

lemma ToLower_formats [simp]: "ToLower ''json'' = ''json''" "ToLower ''text'' = ''text''"
  by (simp_all add: ToLower_def toLowerByte_def)

lemma ToLower_JSON: "ToLower ''JSON'' = ''json''"
  by code_simp

lemma reaches_flags_check_iff:
  "reaches_flags_check compile stat cfg \<longleftrightarrow>
     reaches_output_check compile stat cfg \<and>
     (ToLower (Output cfg) = ''json'' \<or> ToLower (Output cfg) = ''text'')"
  by (auto simp add: reaches_flags_check_def FormatJSON_def FormatText_def)

lemma reaches_output_checkE:
  assumes "reaches_output_check compile stat cfg"
  obtains re1 fi re2 where
    "PhraseRegex cfg \<noteq> []" "compile (PhraseRegex cfg) = Inr re1"
    "SearchDir cfg \<noteq> []" "stat (SearchDir cfg) = Inr fi" "IsDir fi"
    "FileRegex cfg \<noteq> []" "compile (FileRegex cfg) = Inr re2"
proof -
  from assms obtain re1 where 1: "compile (PhraseRegex cfg) = Inr re1"
    by (cases "compile (PhraseRegex cfg)") (simp_all add: reaches_output_check_def)
  from assms obtain fi where 2: "stat (SearchDir cfg) = Inr fi" "IsDir fi"
    by (cases "stat (SearchDir cfg)") (simp_all add: reaches_output_check_def)
  from assms obtain re2 where 3: "compile (FileRegex cfg) = Inr re2"
    by (cases "compile (FileRegex cfg)") (simp_all add: reaches_output_check_def)
  from assms have "PhraseRegex cfg \<noteq> []" "SearchDir cfg \<noteq> []" "FileRegex cfg \<noteq> []"
    by (simp_all add: reaches_output_check_def)
  with 1 2 3 show thesis using that by blast
qed

text \<open>What \<^verbatim>\<open>Validate\<close> does from the output-format check on, once the first six checks are passed.\<close>

lemma Validate_tail:
  assumes "PhraseRegex cfg \<noteq> []" "compile (PhraseRegex cfg) = Inr re1"
    "SearchDir cfg \<noteq> []" "stat (SearchDir cfg) = Inr fi" "IsDir fi"
    "FileRegex cfg \<noteq> []" "compile (FileRegex cfg) = Inr re2"
  shows "Validate compile stat cfg =
    (if \<not> (ToLower (Output cfg) = ''json'' \<or> ToLower (Output cfg) = ''text'')
     then (cfg\<lparr>PhraseRegexp := Some re1, FileRegexp := Some re2\<rparr>,
           Some (ErrInvalidOutputFormat (Output cfg) [''json'', ''text'']))
     else if Extended cfg \<and> IPsOnly cfg
     then (cfg\<lparr>PhraseRegexp := Some re1, FileRegexp := Some re2,
               Output := ToLower (Output cfg)\<rparr>, Some ErrMutuallyExclusive)
     else if IncludeArchives cfg \<or> ArchiveRegex cfg \<noteq> []
     then (case compile (ArchiveRegex cfg) of
             Inl err \<Rightarrow>
               (cfg\<lparr>PhraseRegexp := Some re1, FileRegexp := Some re2,
                    Output := ToLower (Output cfg)\<rparr>, Some (ErrInvalidArchiveRegex err))
           | Inr re \<Rightarrow>
               (cfg\<lparr>PhraseRegexp := Some re1, FileRegexp := Some re2,
                    Output := ToLower (Output cfg), ArchiveRegexp := Some re\<rparr>,
                if Concurrency cfg < 1 then Some ErrConcurrency else None))
     else (cfg\<lparr>PhraseRegexp := Some re1, FileRegexp := Some re2,
               Output := ToLower (Output cfg)\<rparr>,
           if Concurrency cfg < 1 then Some ErrConcurrency else None))"
  using assms
  by (auto simp add: Validate_def Let_def FormatJSON_def FormatText_def split: sum.splits)

text \<open>The same from the archive check on.\<close>

lemma Validate_from_archive_check:
  assumes "reaches_archive_check compile stat cfg"
  shows "snd (Validate compile stat cfg) =
           (if IncludeArchives cfg \<or> ArchiveRegex cfg \<noteq> []
            then (case compile (ArchiveRegex cfg) of
                    Inl err \<Rightarrow> Some (ErrInvalidArchiveRegex err)
                  | Inr re \<Rightarrow> if Concurrency cfg < 1 then Some ErrConcurrency else None)
            else if Concurrency cfg < 1 then Some ErrConcurrency else None)"
    and "ArchiveRegexp (fst (Validate compile stat cfg)) =
           (if IncludeArchives cfg \<or> ArchiveRegex cfg \<noteq> []
            then (case compile (ArchiveRegex cfg) of
                    Inl err \<Rightarrow> ArchiveRegexp cfg
                  | Inr re \<Rightarrow> Some re)
            else ArchiveRegexp cfg)"
proof -
  from assms have out: "ToLower (Output cfg) = ''json'' \<or> ToLower (Output cfg) = ''text''"
    and flags: "\<not> (Extended cfg \<and> IPsOnly cfg)"
    and "reaches_output_check compile stat cfg"
    by (simp_all add: reaches_archive_check_def reaches_flags_check_iff)
  then obtain re1 fi re2 where pre:
    "PhraseRegex cfg \<noteq> []" "compile (PhraseRegex cfg) = Inr re1"
    "SearchDir cfg \<noteq> []" "stat (SearchDir cfg) = Inr fi" "IsDir fi"
    "FileRegex cfg \<noteq> []" "compile (FileRegex cfg) = Inr re2"
    by (auto elim: reaches_output_checkE)
  note tail = Validate_tail [where compile = compile and stat = stat and cfg = cfg, OF pre]
  show "snd (Validate compile stat cfg) =
           (if IncludeArchives cfg \<or> ArchiveRegex cfg \<noteq> []
            then (case compile (ArchiveRegex cfg) of
                    Inl err \<Rightarrow> Some (ErrInvalidArchiveRegex err)
                  | Inr re \<Rightarrow> if Concurrency cfg < 1 then Some ErrConcurrency else None)
            else if Concurrency cfg < 1 then Some ErrConcurrency else None)"
    unfolding tail using out flags by (auto split: sum.splits)
  show "ArchiveRegexp (fst (Validate compile stat cfg)) =
           (if IncludeArchives cfg \<or> ArchiveRegex cfg \<noteq> []
            then (case compile (ArchiveRegex cfg) of
                    Inl err \<Rightarrow> ArchiveRegexp cfg
                  | Inr re \<Rightarrow> Some re)
            else ArchiveRegexp cfg)"
    unfolding tail using out flags by (auto split: sum.splits)
qed

text \<open>The examples, evaluated.\<close>

lemma compile_kill: "regexp_Compile ''kill'' = Inr kill_rexp"
  by (simp add: regexp_Compile_def close_frame_def kill_rexp_def)

lemma compile_file: "regexp_Compile (''.*'' @ [CHR 0x5C] @ ''.log$'') = Inr file_rexp"
  by (simp add: regexp_Compile_def close_frame_def isalnum_def file_rexp_def dot_log_def)

lemma compile_archive:
  "regexp_Compile ([CHR 0x5C] @ ''.(7z|bz2|gz|tar|xz|zip|xz|zst|lz)$'') = Inr archive_rexp"
  by (simp add: regexp_Compile_def close_frame_def isalnum_def archive_rexp_def extensions_def)

lemma compile_empty: "regexp_Compile [] = Inr EmptyMatch"
  by (simp add: regexp_Compile_def close_frame_def)

lemma compile_open_paren: "regexp_Compile ''('' = Inl ErrMissingParen"
  by (simp add: regexp_Compile_def)

lemma Validate_example:
  "Validate regexp_Compile example_stat example_config = (example_validated, None)"
  using compile_kill compile_file compile_archive
  by (simp add: Validate_def Let_def example_config_def example_validated_def NewConfig_def
      example_stat_def FormatJSON_def FormatText_def ToLower_JSON)

lemma reaches_examples:
  "reaches_output_check regexp_Compile example_stat example_config"
  "reaches_output_check regexp_Compile example_stat config_both_flags_xml"
  "reaches_flags_check regexp_Compile example_stat config_both_flags"
  "reaches_concurrency_check regexp_Compile example_stat config_kill_no_workers"
  "reaches_archive_check regexp_Compile example_stat example_config"
  "reaches_archive_check regexp_Compile example_stat config_archives_empty"
  "reaches_archive_check regexp_Compile example_stat config_bad_archive"
  "reaches_archive_check regexp_Compile example_stat config_no_archives"
  "reaches_concurrency_check regexp_Compile example_stat example_config"
  using compile_kill compile_file compile_archive
  by (simp_all add: reaches_concurrency_check_def reaches_archive_check_def
      reaches_flags_check_iff reaches_output_check_def example_config_def
      config_both_flags_xml_def config_both_flags_def config_kill_no_workers_def
      config_archives_empty_def config_bad_archive_def config_no_archives_def
      NewConfig_def example_stat_def FormatText_def ToLower_JSON)

lemmas Validate_unfold =
  Validate_def Let_def FormatJSON_def FormatText_def spec_checks_def
  check_phrase_nonempty_def check_phrase_compiles_def check_dir_nonempty_def
  check_dir_exists_def check_file_nonempty_def check_file_compiles_def
  check_output_format_def check_exclusive_flags_def check_archive_pattern_def
  check_concurrency_def

section \<open>What the patterns match\<close>

text \<open>
  The equation of the star unfolds without end under the simplifier; it is applied by
  hand where it is needed.
\<close>

declare run.simps(8) [simp del]

text \<open>Whatever a pattern leaves is a suffix of what it was given.\<close>

lemma run_suffix: "t \<in> set (run r s) \<Longrightarrow> suffix t s"
proof (induction r s arbitrary: t rule: run.induct)
  case (1 s)
  then show ?case by simp
next
  case (2 c s)
  then show ?case by (cases s) (auto split: if_splits simp add: suffix_Cons)
next
  case (3 s)
  then show ?case by (cases s) (auto split: if_splits simp add: suffix_Cons)
next
  case (4 s)
  then show ?case by (auto split: if_splits)
next
  case (5 r s)
  then show ?case by simp
next
  case (6 r1 r2 s)
  from "6.prems" obtain u where u: "u \<in> set (run r1 s)" and t: "t \<in> set (run r2 u)"
    by auto
  from "6.IH"(1) [OF u] "6.IH"(2) [OF u t] show ?case
    by (rule suffix_order.trans [rotated])
next
  case (7 r1 r2 s)
  then show ?case by auto
next
  case (8 r s)
  show ?case
  proof (cases "t = s")
    case True
    then show ?thesis by simp
  next
    case False
    with "8.prems" obtain u where u: "u \<in> set (run r s)" "length u < length s"
      and t: "t \<in> set (run (Star r) u)"
      by (subst (asm) run.simps(8)) auto
    from u have "u \<in> set (filter (\<lambda>t. length t < length s) (run r s))" by simp
    from "8.IH"(2) [OF this t] "8.IH"(1) [OF u(1)] show ?thesis
      by (rule suffix_order.trans)
  qed
qed


lemma MatchString_iff: "MatchString re s \<longleftrightarrow> (\<exists>t. suffix t s \<and> run re t \<noteq> [])"
proof (induction s)
  case Nil
  then show ?case by simp
next
  case (Cons c s)
  show ?case
    unfolding MatchString.simps Cons.IH suffix_Cons by auto
qed

lemma run_Lit_Concat:
  "run (Concat (Lit c) r) s = (case s of [] \<Rightarrow> [] | x # t \<Rightarrow> if x = c then run r t else [])"
  by (simp split: list.split)

lemma run_dot_log: "run dot_log u \<noteq> [] \<longleftrightarrow> u = ''.log''"
  unfolding dot_log_def run_Lit_Concat
  by (auto split: list.splits if_splits)

lemma run_Star_self: "s \<in> set (run (Star r) s)"
  by (subst run.simps(8)) simp

lemma run_file_rexp: "run file_rexp t \<noteq> [] \<Longrightarrow> suffix ''.log'' t"
proof -
  assume "run file_rexp t \<noteq> []"
  then obtain u where u: "u \<in> set (run (Star AnyCharNotNL) t)" and "run dot_log u \<noteq> []"
    unfolding file_rexp_def by auto
  then have "u = ''.log''" by (simp only: run_dot_log)
  with run_suffix [OF u] show "suffix ''.log'' t" by simp
qed

lemma run_file_rexp_log: "run file_rexp ''.log'' \<noteq> []"
proof -
  have "run dot_log ''.log'' \<noteq> []" by (simp only: run_dot_log)
  with run_Star_self [of "''.log''" AnyCharNotNL] show ?thesis
    unfolding file_rexp_def by auto
qed

lemma MatchString_file_rexp: "MatchString file_rexp s \<longleftrightarrow> suffix ''.log'' s"
proof
  assume "MatchString file_rexp s"
  then obtain t where "suffix t s" "run file_rexp t \<noteq> []"
    unfolding MatchString_iff by blast
  from run_file_rexp [OF this(2)] this(1) show "suffix ''.log'' s"
    by (rule suffix_order.trans)
next
  assume "suffix ''.log'' s"
  with run_file_rexp_log show "MatchString file_rexp s"
    unfolding MatchString_iff by blast
qed

lemma MatchString_EmptyMatch: "MatchString EmptyMatch s"
  by (cases s) simp_all

lemma run_extensions:
  "run (Concat (Capture extensions) EndText) u \<noteq> [] \<longleftrightarrow>
     u = ''7z'' \<or> u = ''bz2'' \<or> u = ''gz'' \<or> u = ''tar'' \<or> u = ''xz'' \<or> u = ''zip''
     \<or> u = ''zst'' \<or> u = ''lz''"
  unfolding extensions_def
  by (auto split: list.splits if_splits)


lemma run_archive_rexp:
  "run archive_rexp t \<noteq> [] \<longleftrightarrow>
     t = ''.7z'' \<or> t = ''.bz2'' \<or> t = ''.gz'' \<or> t = ''.tar'' \<or> t = ''.xz'' \<or> t = ''.zip''
     \<or> t = ''.zst'' \<or> t = ''.lz''"
proof (cases t)
  case Nil
  then show ?thesis by (simp add: archive_rexp_def)
next
  case (Cons c u)
  show ?thesis
  proof (cases "c = CHR ''.''")
    case True
    with Cons show ?thesis
      unfolding archive_rexp_def run_Lit_Concat by (simp only: run_extensions list.case if_True list.inject simp_thms)
  next
    case False
    with Cons show ?thesis
      unfolding archive_rexp_def run_Lit_Concat by simp
  qed
qed

lemma MatchString_archive_rexp:
  "MatchString archive_rexp s \<longleftrightarrow>
     suffix ''.7z'' s \<or> suffix ''.bz2'' s \<or> suffix ''.gz'' s \<or> suffix ''.tar'' s
     \<or> suffix ''.xz'' s \<or> suffix ''.zip'' s \<or> suffix ''.zst'' s \<or> suffix ''.lz'' s"
  (is "?lhs \<longleftrightarrow> ?rhs")
proof
  assume ?lhs
  then obtain t where t: "suffix t s" and "run archive_rexp t \<noteq> []"
    unfolding MatchString_iff by blast
  then have "t = ''.7z'' \<or> t = ''.bz2'' \<or> t = ''.gz'' \<or> t = ''.tar'' \<or> t = ''.xz''
     \<or> t = ''.zip'' \<or> t = ''.zst'' \<or> t = ''.lz''"
    by (simp only: run_archive_rexp)
  with t show ?rhs
    by (elim disjE) (simp_all only: simp_thms)
next
  have m: "MatchString archive_rexp s" if "suffix t s" and "run archive_rexp t \<noteq> []" for t
    using that unfolding MatchString_iff by blast
  assume ?rhs
  then show ?lhs
    by (elim disjE) (erule m, simp only: run_archive_rexp simp_thms)+
qed

text \<open>The matcher, run on four file names.\<close>

lemma MatchString_examples:
  "MatchString file_rexp ''server.log''"
  "\<not> MatchString file_rexp ''server.log.gz''"
  "MatchString archive_rexp ''server.log.gz''"
  "\<not> MatchString archive_rexp ''server.log''"
  by code_simp+

section \<open>The invariants after a successful validation\<close>

text \<open>
  Claim C1.  Whenever \<^verbatim>\<open>Validate\<close> returns nil, the configuration it leaves satisfies
  the seven invariants: the compiled phrase pattern is the compilation of the phrase
  pattern, the search directory exists and is a directory, the compiled file pattern is
  the compilation of the file pattern, the output format is exactly \<^verbatim>\<open>json\<close> or
  \<^verbatim>\<open>text\<close>, the two flags are not both set, the compiled archive pattern is the
  compilation of the archive pattern if archives are included or the archive pattern
  is not empty, and the concurrency is at least 1.
\<close>

theorem Validate_success_invariants:
  assumes "Validate compile stat cfg = (cfg', None)"
  shows "(\<exists>re. compile (PhraseRegex cfg') = Inr re \<and> PhraseRegexp cfg' = Some re)
       \<and> (\<exists>fi. stat (SearchDir cfg') = Inr fi \<and> IsDir fi)
       \<and> (\<exists>re. compile (FileRegex cfg') = Inr re \<and> FileRegexp cfg' = Some re)
       \<and> (Output cfg' = ''json'' \<or> Output cfg' = ''text'')
       \<and> \<not> (Extended cfg' \<and> IPsOnly cfg')
       \<and> (IncludeArchives cfg' \<or> ArchiveRegex cfg' \<noteq> [] \<longrightarrow>
            (\<exists>re. compile (ArchiveRegex cfg') = Inr re \<and> ArchiveRegexp cfg' = Some re))
       \<and> 1 \<le> Concurrency cfg'"
  using assms unfolding Validate_def Let_def FormatJSON_def FormatText_def
  by (auto split: if_splits sum.splits)

theorem Validate_success_invariants_witness:
  "Validate regexp_Compile example_stat example_config = (example_validated, None)
   \<and> (\<exists>re. regexp_Compile (PhraseRegex example_validated) = Inr re
            \<and> PhraseRegexp example_validated = Some re)
   \<and> (\<exists>fi. example_stat (SearchDir example_validated) = Inr fi \<and> IsDir fi)
   \<and> (\<exists>re. regexp_Compile (FileRegex example_validated) = Inr re
            \<and> FileRegexp example_validated = Some re)
   \<and> (Output example_validated = ''json'' \<or> Output example_validated = ''text'')
   \<and> \<not> (Extended example_validated \<and> IPsOnly example_validated)
   \<and> ArchiveRegex example_validated \<noteq> []
   \<and> (\<exists>re. regexp_Compile (ArchiveRegex example_validated) = Inr re
            \<and> ArchiveRegexp example_validated = Some re)
   \<and> 1 \<le> Concurrency example_validated"
proof -
  have "ArchiveRegex example_validated \<noteq> []"
    by (simp add: example_validated_def example_config_def NewConfig_def)
  with Validate_success_invariants [OF Validate_example] Validate_example
  show ?thesis by simp
qed

section \<open>The order of the checks\<close>

text \<open>
  Claim C2.  \<^verbatim>\<open>Validate\<close> is the run of the ten checks of the specification in the
  order in which the specification lists them: for every configuration, every
  \<^verbatim>\<open>regexp.Compile\<close> and every \<^verbatim>\<open>os.Stat\<close>, it leaves the same configuration and
  returns the error of the same kind as \<open>run_checks\<close> on that list, which stops at the
  first check that fails and runs none of the later ones.
\<close>

theorem Validate_refines_spec:
  "apsnd (map_option kind_of) (Validate compile stat cfg)
     = run_checks (spec_checks compile stat) cfg"
proof (cases "PhraseRegex cfg = []")
  case True
  then show ?thesis
    by (auto simp add: Validate_unfold)
next
  case phrase: False
  show ?thesis
  proof (cases "compile (PhraseRegex cfg)")
    case (Inl err)
    then show ?thesis using phrase
      by (auto simp add: Validate_unfold)
  next
    case re1_ok: (Inr re1)
    show ?thesis
    proof (cases "SearchDir cfg = []")
      case True
      then show ?thesis using phrase re1_ok
        by (auto simp add: Validate_unfold)
    next
      case dir: False
      show ?thesis
      proof (cases "stat (SearchDir cfg)")
        case (Inl err)
        then show ?thesis using phrase re1_ok dir
          by (auto simp add: Validate_unfold)
      next
        case fi_ok: (Inr fi)
        show ?thesis
        proof (cases "\<not> IsDir fi")
          case True
          then show ?thesis using phrase re1_ok dir fi_ok
            by (auto simp add: Validate_unfold)
        next
          case isdir: False
          show ?thesis
          proof (cases "FileRegex cfg = []")
            case True
            then show ?thesis using phrase re1_ok dir fi_ok isdir
              by (auto simp add: Validate_unfold)
          next
            case ne_file: False
            show ?thesis
            proof (cases "compile (FileRegex cfg)")
              case (Inl err)
              then show ?thesis using phrase re1_ok dir fi_ok isdir ne_file
                by (auto simp add: Validate_unfold)
            next
              case re2_ok: (Inr re2)
              note six = phrase re1_ok dir fi_ok isdir ne_file re2_ok
              show ?thesis
              proof (cases "\<not> (ToLower (Output cfg) = ''json'' \<or> ToLower (Output cfg) = ''text'')")
                case True
                then show ?thesis using six
                  by (auto simp add: Validate_unfold)
              next
                case out: False
                show ?thesis
                proof (cases "Extended cfg \<and> IPsOnly cfg")
                  case True
                  then show ?thesis using six out
                    by (auto simp add: Validate_unfold)
                next
                  case flags: False
                  show ?thesis
                  proof (cases "IncludeArchives cfg \<or> ArchiveRegex cfg \<noteq> []")
                    case arch: True
                    show ?thesis
                    proof (cases "compile (ArchiveRegex cfg)")
                      case (Inl err)
                      then show ?thesis using arch six out flags
                        by (auto simp add: Validate_unfold)
                    next
                      case (Inr re3)
                      then show ?thesis using arch six out flags
                        by (auto simp add: Validate_unfold)
                    qed
                  next
                    case False
                    then show ?thesis using six out flags
                      by (auto simp add: Validate_unfold)
                  qed
                qed
              qed
            qed
          qed
        qed
      qed
    qed
  qed
qed

theorem Validate_refines_spec_witness:
  "run_checks (spec_checks regexp_Compile example_stat) example_config
     = (example_validated, None)
   \<and> run_checks (spec_checks regexp_Compile example_stat) config_both_flags_xml
       = (fst (Validate regexp_Compile example_stat config_both_flags_xml),
          Some (InvalidEnumValue ''output'' ''xml'' [''json'', ''text'']))"
proof -
  have x: "snd (Validate regexp_Compile example_stat config_both_flags_xml)
             = Some (ErrInvalidOutputFormat ''xml'' [''json'', ''text''])"
    using compile_kill compile_file
    by (simp add: Validate_def Let_def config_both_flags_xml_def NewConfig_def
        example_stat_def FormatJSON_def FormatText_def ToLower_def toLowerByte_def)
  from Validate_refines_spec [of regexp_Compile example_stat example_config, symmetric]
  have 1: "run_checks (spec_checks regexp_Compile example_stat) example_config
     = (example_validated, None)"
    by (simp add: Validate_example)
  from Validate_refines_spec [of regexp_Compile example_stat config_both_flags_xml, symmetric] x
  have 2: "run_checks (spec_checks regexp_Compile example_stat) config_both_flags_xml
       = (fst (Validate regexp_Compile example_stat config_both_flags_xml),
          Some (InvalidEnumValue ''output'' ''xml'' [''json'', ''text'']))"
    by (simp add: apsnd_def map_prod_def split_beta)
  from 1 2 show ?thesis by (intro conjI)
qed

section \<open>The first check\<close>

text \<open>
  Claim C3.  When \<^verbatim>\<open>PhraseRegex\<close> is the empty string, \<^verbatim>\<open>Validate\<close> returns the
  missing-required-field error of the phrase regex and leaves the configuration as it
  was.  This holds whatever \<^verbatim>\<open>regexp.Compile\<close> and \<^verbatim>\<open>os.Stat\<close> would answer and whatever
  the other fields hold, so no other field is checked, no compiled pattern is stored
  and no other error can come back.
\<close>

theorem Validate_empty_phrase:
  "PhraseRegex cfg = [] \<Longrightarrow>
     Validate compile stat cfg = (cfg, Some ErrRegexRequired) \<and>
     map_option kind_of (snd (Validate compile stat cfg))
       = Some (MissingRequiredField ''phrase regex'')"
  by (simp add: Validate_def)

theorem Validate_empty_phrase_witness:
  "PhraseRegex (NewConfig 4 :: unit Config) = [] \<and>
   Validate (\<lambda>p. Inl ()) (\<lambda>p. Inl ()) (NewConfig 4 :: unit Config)
     = (NewConfig 4, Some (ErrRegexRequired :: (unit, unit) error)) \<and>
   map_option kind_of (snd (Validate (\<lambda>p. Inl ()) (\<lambda>p. Inl ()) (NewConfig 4 :: unit Config)))
     = Some (MissingRequiredField ''phrase regex'' :: (unit, unit) error_kind)"
  using Validate_empty_phrase [of "NewConfig 4 :: unit Config" "\<lambda>p. Inl ()" "\<lambda>p. Inl ()"]
  by (simp add: NewConfig_def)

section \<open>The output format\<close>

text \<open>
  Claim C4.  For a configuration that passes the six checks before the output-format
  check: if \<^verbatim>\<open>Output\<close> equals \<^verbatim>\<open>json\<close> or \<^verbatim>\<open>text\<close> up to the case of its letters, the
  check passes (no invalid-output-format error is returned) and \<^verbatim>\<open>Output\<close> is left in
  lower case; otherwise \<^verbatim>\<open>Validate\<close> returns the invalid-enum-value error, carrying the
  value as it was given and the two allowed values.
\<close>

theorem Validate_output_format:
  assumes "reaches_output_check compile stat cfg"
  shows "if equal_ignoring_case (Output cfg) ''json'' \<or> equal_ignoring_case (Output cfg) ''text''
         then Output (fst (Validate compile stat cfg)) = ToLower (Output cfg)
            \<and> (\<forall>v allowed. snd (Validate compile stat cfg)
                   \<noteq> Some (ErrInvalidOutputFormat v allowed))
         else snd (Validate compile stat cfg)
                = Some (ErrInvalidOutputFormat (Output cfg) [''json'', ''text''])
            \<and> map_option kind_of (snd (Validate compile stat cfg))
                = Some (InvalidEnumValue ''output'' (Output cfg) [''json'', ''text''])"
proof -
  from assms obtain re1 fi re2 where pre:
    "PhraseRegex cfg \<noteq> []" "compile (PhraseRegex cfg) = Inr re1"
    "SearchDir cfg \<noteq> []" "stat (SearchDir cfg) = Inr fi" "IsDir fi"
    "FileRegex cfg \<noteq> []" "compile (FileRegex cfg) = Inr re2"
    by (rule reaches_output_checkE)
  show ?thesis
    unfolding Validate_tail [where compile = compile and stat = stat and cfg = cfg, OF pre]
      equal_ignoring_case_def
    by (auto split: sum.splits)
qed

theorem Validate_output_format_witness:
  "reaches_output_check regexp_Compile example_stat example_config
   \<and> equal_ignoring_case (Output example_config) ''json''
   \<and> Output (fst (Validate regexp_Compile example_stat example_config)) = ''json''
   \<and> snd (Validate regexp_Compile example_stat example_config) = None"
proof -
  note r = reaches_examples(1)
  have e: "equal_ignoring_case (Output example_config) ''json''"
    by (simp add: equal_ignoring_case_def example_config_def ToLower_JSON)
  from Validate_output_format [OF r] e
  have "Output (fst (Validate regexp_Compile example_stat example_config))
          = ToLower (Output example_config)"
    by simp
  then have "Output (fst (Validate regexp_Compile example_stat example_config)) = ''json''"
    by (simp add: example_config_def ToLower_JSON)
  with r e Validate_example show ?thesis by simp
qed

section \<open>The two exclusive flags\<close>

text \<open>
  Claim C5, as amended.  For a configuration with \<^verbatim>\<open>Extended\<close> and \<^verbatim>\<open>IPsOnly\<close> both
  set that passes the seven checks before the flags check (the required fields, the
  two patterns, the directory and also the output format), \<^verbatim>\<open>Validate\<close> returns the
  mutually-exclusive-flags error, whatever the archive pattern and the concurrency are:
  the archive pattern is not compiled.  The output format has been normalised by then.
\<close>

theorem Validate_exclusive_flags:
  assumes "reaches_flags_check compile stat cfg" and "Extended cfg" and "IPsOnly cfg"
  shows "snd (Validate compile stat cfg) = Some ErrMutuallyExclusive
       \<and> map_option kind_of (snd (Validate compile stat cfg))
           = Some (MutuallyExclusiveFlags ''extended'' ''ips-only'')
       \<and> Output (fst (Validate compile stat cfg)) = ToLower (Output cfg)
       \<and> ArchiveRegexp (fst (Validate compile stat cfg)) = ArchiveRegexp cfg"
proof -
  from assms(1) have out: "ToLower (Output cfg) = ''json'' \<or> ToLower (Output cfg) = ''text''"
    and "reaches_output_check compile stat cfg"
    by (simp_all add: reaches_flags_check_iff)
  then obtain re1 fi re2 where pre:
    "PhraseRegex cfg \<noteq> []" "compile (PhraseRegex cfg) = Inr re1"
    "SearchDir cfg \<noteq> []" "stat (SearchDir cfg) = Inr fi" "IsDir fi"
    "FileRegex cfg \<noteq> []" "compile (FileRegex cfg) = Inr re2"
    by (auto elim: reaches_output_checkE)
  show ?thesis
    unfolding Validate_tail [where compile = compile and stat = stat and cfg = cfg, OF pre]
    using out assms(2,3) by auto
qed

theorem Validate_exclusive_flags_witness:
  "reaches_flags_check regexp_Compile example_stat config_both_flags
   \<and> Extended config_both_flags \<and> IPsOnly config_both_flags
   \<and> Concurrency config_both_flags = 0
   \<and> regexp_Compile (ArchiveRegex config_both_flags) = Inl ErrMissingParen
   \<and> snd (Validate regexp_Compile example_stat config_both_flags) = Some ErrMutuallyExclusive"
proof -
  have f: "Extended config_both_flags" "IPsOnly config_both_flags"
    by (simp_all add: config_both_flags_def)
  show ?thesis
    using Validate_exclusive_flags [OF reaches_examples(3) f] reaches_examples(3) f
    by (simp add: config_both_flags_def regexp_Compile_def)
qed

text \<open>
  The claim as the specification words it asks only for the required-field and
  pattern checks to pass.  With both flags set, those checks passed and the output
  format \<^verbatim>\<open>xml\<close>, \<^verbatim>\<open>Validate\<close> returns the invalid-output-format error and not the
  mutually-exclusive-flags error.
\<close>

theorem Validate_exclusive_flags_counterexample:
  "Extended config_both_flags_xml \<and> IPsOnly config_both_flags_xml
   \<and> reaches_output_check regexp_Compile example_stat config_both_flags_xml
   \<and> snd (Validate regexp_Compile example_stat config_both_flags_xml)
       = Some (ErrInvalidOutputFormat ''xml'' [''json'', ''text''])
   \<and> snd (Validate regexp_Compile example_stat config_both_flags_xml)
       \<noteq> Some ErrMutuallyExclusive"
proof -
  have "ToLower ''xml'' = ''xml''" by (simp add: ToLower_def toLowerByte_def)
  then show ?thesis
    using compile_kill compile_file reaches_examples(2)
    by (simp add: Validate_def Let_def config_both_flags_xml_def NewConfig_def
        example_stat_def FormatJSON_def FormatText_def)
qed

section \<open>The concurrency\<close>

text \<open>
  Claim C6, as amended.  For a configuration that passes the nine checks before the
  concurrency check: with \<^verbatim>\<open>Concurrency\<close> at most 0 \<^verbatim>\<open>Validate\<close> returns the
  invalid-range error of the concurrency, and with \<^verbatim>\<open>Concurrency\<close> at least 1 it
  returns nil.  And for every configuration with \<^verbatim>\<open>Concurrency\<close> at least 1, whatever
  else it holds, \<^verbatim>\<open>Validate\<close> does not return the invalid-range error.
\<close>

theorem Validate_concurrency:
  "(reaches_concurrency_check compile stat cfg \<and> Concurrency cfg \<le> 0 \<longrightarrow>
      snd (Validate compile stat cfg) = Some ErrConcurrency
      \<and> map_option kind_of (snd (Validate compile stat cfg))
          = Some (InvalidRange ''concurrency'' 1))
   \<and> (reaches_concurrency_check compile stat cfg \<and> 1 \<le> Concurrency cfg \<longrightarrow>
        snd (Validate compile stat cfg) = None)
   \<and> (1 \<le> Concurrency cfg \<longrightarrow> snd (Validate compile stat cfg) \<noteq> Some ErrConcurrency)"
proof (intro conjI impI)
  assume a: "reaches_concurrency_check compile stat cfg \<and> Concurrency cfg \<le> 0"
  then have r: "reaches_archive_check compile stat cfg"
    by (simp add: reaches_concurrency_check_def)
  from a have e: "snd (Validate compile stat cfg) = Some ErrConcurrency"
    unfolding Validate_from_archive_check(1) [OF r]
    by (cases "compile (ArchiveRegex cfg)")
       (auto simp add: reaches_concurrency_check_def split: if_splits)
  then show "snd (Validate compile stat cfg) = Some ErrConcurrency" .
  from e show "map_option kind_of (snd (Validate compile stat cfg))
      = Some (InvalidRange ''concurrency'' 1)"
    by simp
next
  assume a: "reaches_concurrency_check compile stat cfg \<and> 1 \<le> Concurrency cfg"
  then have r: "reaches_archive_check compile stat cfg"
    by (simp add: reaches_concurrency_check_def)
  from a show "snd (Validate compile stat cfg) = None"
    unfolding Validate_from_archive_check(1) [OF r]
    by (cases "compile (ArchiveRegex cfg)")
       (auto simp add: reaches_concurrency_check_def split: if_splits)
next
  assume "1 \<le> Concurrency cfg"
  then show "snd (Validate compile stat cfg) \<noteq> Some ErrConcurrency"
    unfolding Validate_def Let_def
    by (simp split: sum.split)
qed

theorem Validate_concurrency_witness:
  "reaches_concurrency_check regexp_Compile example_stat config_kill_no_workers
   \<and> Concurrency config_kill_no_workers \<le> 0
   \<and> snd (Validate regexp_Compile example_stat config_kill_no_workers) = Some ErrConcurrency
   \<and> reaches_concurrency_check regexp_Compile example_stat example_config
   \<and> 1 \<le> Concurrency example_config
   \<and> snd (Validate regexp_Compile example_stat example_config) = None"
proof -
  have c: "Concurrency config_kill_no_workers \<le> 0" "1 \<le> Concurrency example_config"
    by (simp_all add: config_kill_no_workers_def example_config_def NewConfig_def)
  show ?thesis
    using Validate_concurrency [of regexp_Compile example_stat config_kill_no_workers]
      Validate_concurrency [of regexp_Compile example_stat example_config]
      reaches_examples(4) reaches_examples(9) c
    by simp
qed

text \<open>
  The claim as the specification words it has no condition on the earlier checks.  The
  defaults with \<^verbatim>\<open>Concurrency\<close> 0 have an empty phrase pattern, and \<^verbatim>\<open>Validate\<close>
  returns the missing-required-field error of the phrase regex for them.
\<close>

theorem Validate_concurrency_counterexample:
  "Concurrency config_no_workers \<le> 0
   \<and> snd (Validate regexp_Compile example_stat config_no_workers) = Some ErrRegexRequired
   \<and> snd (Validate regexp_Compile example_stat config_no_workers) \<noteq> Some ErrConcurrency"
  by (simp add: Validate_def config_no_workers_def NewConfig_def)

section \<open>The archive pattern\<close>

text \<open>
  Claim C7.  For a configuration that passes the eight checks before the archive
  check: if \<^verbatim>\<open>IncludeArchives\<close> is set or \<^verbatim>\<open>ArchiveRegex\<close> is not empty, the archive
  pattern is compiled; when that fails \<^verbatim>\<open>Validate\<close> returns the invalid-pattern error
  of the archive field with the compiler's error, and when it succeeds the compiled
  pattern is stored in \<^verbatim>\<open>ArchiveRegexp\<close> and the run goes on to the concurrency check.
  If \<^verbatim>\<open>IncludeArchives\<close> is not set and \<^verbatim>\<open>ArchiveRegex\<close> is empty, nothing is
  compiled, \<^verbatim>\<open>ArchiveRegexp\<close> stays as it was (nil, if it was nil) and the run goes on
  to the concurrency check.
\<close>

theorem Validate_archive_pattern:
  assumes "reaches_archive_check compile stat cfg"
  shows "if IncludeArchives cfg \<or> ArchiveRegex cfg \<noteq> []
         then (case compile (ArchiveRegex cfg) of
                 Inl err \<Rightarrow>
                   snd (Validate compile stat cfg) = Some (ErrInvalidArchiveRegex err)
                   \<and> map_option kind_of (snd (Validate compile stat cfg))
                       = Some (InvalidPattern ''archive'' err)
               | Inr re \<Rightarrow>
                   ArchiveRegexp (fst (Validate compile stat cfg)) = Some re
                   \<and> snd (Validate compile stat cfg)
                       = (if Concurrency cfg < 1 then Some ErrConcurrency else None))
         else ArchiveRegexp (fst (Validate compile stat cfg)) = ArchiveRegexp cfg
            \<and> (ArchiveRegexp cfg = None \<longrightarrow>
                 ArchiveRegexp (fst (Validate compile stat cfg)) = None)
            \<and> snd (Validate compile stat cfg)
                = (if Concurrency cfg < 1 then Some ErrConcurrency else None)"
  unfolding Validate_from_archive_check [OF assms]
  by (simp split: sum.split)

theorem Validate_archive_pattern_witness:
  "reaches_archive_check regexp_Compile example_stat config_bad_archive
   \<and> ArchiveRegex config_bad_archive \<noteq> []
   \<and> snd (Validate regexp_Compile example_stat config_bad_archive)
       = Some (ErrInvalidArchiveRegex ErrMissingParen)
   \<and> reaches_archive_check regexp_Compile example_stat example_config
   \<and> ArchiveRegex example_config \<noteq> []
   \<and> ArchiveRegexp (fst (Validate regexp_Compile example_stat example_config))
       = Some archive_rexp
   \<and> reaches_archive_check regexp_Compile example_stat config_no_archives
   \<and> \<not> IncludeArchives config_no_archives \<and> ArchiveRegex config_no_archives = []
   \<and> ArchiveRegexp config_no_archives = None
   \<and> ArchiveRegexp (fst (Validate regexp_Compile example_stat config_no_archives)) = None
   \<and> snd (Validate regexp_Compile example_stat config_no_archives) = None"
proof -
  have bad: "ArchiveRegex config_bad_archive = ''(''"
    by (simp add: config_bad_archive_def)
  have ex: "ArchiveRegex example_config = [CHR 0x5C] @ ''.(7z|bz2|gz|tar|xz|zip|xz|zst|lz)$''"
    by (simp add: example_config_def NewConfig_def)
  have no: "\<not> IncludeArchives config_no_archives" "ArchiveRegex config_no_archives = []"
    "ArchiveRegexp config_no_archives = None" "\<not> Concurrency config_no_archives < 1"
    by (simp_all add: config_no_archives_def NewConfig_def)
  from Validate_archive_pattern [OF reaches_examples(7)]
  have 1: "snd (Validate regexp_Compile example_stat config_bad_archive)
       = Some (ErrInvalidArchiveRegex ErrMissingParen)"
    unfolding bad compile_open_paren by simp
  from Validate_archive_pattern [OF reaches_examples(5)]
  have 2: "ArchiveRegexp (fst (Validate regexp_Compile example_stat example_config))
       = Some archive_rexp"
    unfolding ex compile_archive by simp
  from Validate_archive_pattern [OF reaches_examples(8)] no
  have 3: "ArchiveRegexp (fst (Validate regexp_Compile example_stat config_no_archives)) = None"
    "snd (Validate regexp_Compile example_stat config_no_archives) = None"
    by simp_all
  from 1 2 3 reaches_examples(5,7,8) no bad ex show ?thesis by simp
qed

section \<open>The fields that \<^verbatim>\<open>Validate\<close> does not write\<close>

text \<open>
  Claim C9.  Whether it returns an error or nil, \<^verbatim>\<open>Validate\<close> assigns only to
  \<^verbatim>\<open>PhraseRegexp\<close>, \<^verbatim>\<open>FileRegexp\<close>, \<^verbatim>\<open>ArchiveRegexp\<close> and \<^verbatim>\<open>Output\<close>: the other nine
  fields of the configuration it leaves are those of the configuration it was given.
\<close>

theorem Validate_frame:
  "PhraseRegex (fst (Validate compile stat cfg)) = PhraseRegex cfg
   \<and> SearchDir (fst (Validate compile stat cfg)) = SearchDir cfg
   \<and> FileRegex (fst (Validate compile stat cfg)) = FileRegex cfg
   \<and> Deduplicate (fst (Validate compile stat cfg)) = Deduplicate cfg
   \<and> Extended (fst (Validate compile stat cfg)) = Extended cfg
   \<and> IPsOnly (fst (Validate compile stat cfg)) = IPsOnly cfg
   \<and> ArchiveRegex (fst (Validate compile stat cfg)) = ArchiveRegex cfg
   \<and> IncludeArchives (fst (Validate compile stat cfg)) = IncludeArchives cfg
   \<and> Concurrency (fst (Validate compile stat cfg)) = Concurrency cfg"
  unfolding Validate_def Let_def
  by (simp split: sum.split)


section \<open>The empty archive pattern\<close>

text \<open>
  Claim C10.  For a configuration that passes the eight checks before the archive
  check, with \<^verbatim>\<open>IncludeArchives\<close> set and \<^verbatim>\<open>ArchiveRegex\<close> the empty string, where
  \<^verbatim>\<open>regexp.Compile\<close> answers on the empty pattern as Go's does: the empty pattern
  compiles, \<^verbatim>\<open>ArchiveRegexp\<close> is set to the compiled pattern, that pattern matches
  every string, and the archive check does not fail (the only error that can still
  come back is that of the concurrency).
\<close>

theorem Validate_empty_archive_pattern:
  assumes "reaches_archive_check compile stat cfg" and "IncludeArchives cfg"
    and "ArchiveRegex cfg = []" and "compile [] = regexp_Compile []"
  shows "\<exists>re. regexp_Compile [] = Inr re
            \<and> ArchiveRegexp (fst (Validate compile stat cfg)) = Some re
            \<and> (\<forall>s. MatchString re s)
            \<and> snd (Validate compile stat cfg)
                = (if Concurrency cfg < 1 then Some ErrConcurrency else None)"
proof -
  from assms(3,4) have c: "compile (ArchiveRegex cfg) = Inr EmptyMatch"
    by (simp add: compile_empty)
  have "ArchiveRegexp (fst (Validate compile stat cfg)) = Some EmptyMatch"
    and "snd (Validate compile stat cfg)
           = (if Concurrency cfg < 1 then Some ErrConcurrency else None)"
    unfolding Validate_from_archive_check [OF assms(1)] using assms(2) c by simp_all
  with compile_empty MatchString_EmptyMatch show ?thesis by blast
qed

theorem Validate_empty_archive_pattern_witness:
  "reaches_archive_check regexp_Compile example_stat config_archives_empty
   \<and> IncludeArchives config_archives_empty \<and> ArchiveRegex config_archives_empty = []
   \<and> (\<exists>re. ArchiveRegexp (fst (Validate regexp_Compile example_stat config_archives_empty))
              = Some re
            \<and> MatchString re ''server.log'' \<and> MatchString re [])
   \<and> snd (Validate regexp_Compile example_stat config_archives_empty) = None"
proof -
  have a: "IncludeArchives config_archives_empty" "ArchiveRegex config_archives_empty = []"
    "\<not> Concurrency config_archives_empty < 1"
    by (simp_all add: config_archives_empty_def NewConfig_def)
  from Validate_empty_archive_pattern [OF reaches_examples(6) a(1,2) refl] a(3)
  obtain re where "ArchiveRegexp (fst (Validate regexp_Compile example_stat config_archives_empty))
              = Some re" "\<forall>s. MatchString re s"
    "snd (Validate regexp_Compile example_stat config_archives_empty) = None"
    by auto
  with reaches_examples(6) a show ?thesis by blast
qed

section \<open>The defaults\<close>

text \<open>
  Claim C8.  \<^verbatim>\<open>NewConfig\<close> returns a configuration whose search directory is \<^verbatim>\<open>.\<close>,
  whose file pattern compiles to a pattern that matches exactly the strings ending in
  \<^verbatim>\<open>.log\<close>, with \<^verbatim>\<open>Deduplicate\<close> false and the output format \<^verbatim>\<open>text\<close>, whose archive
  pattern compiles to a pattern that matches exactly the strings ending in one of
  \<^verbatim>\<open>.7z\<close>, \<^verbatim>\<open>.bz2\<close>, \<^verbatim>\<open>.gz\<close>, \<^verbatim>\<open>.tar\<close>, \<^verbatim>\<open>.xz\<close>, \<^verbatim>\<open>.zip\<close>, \<^verbatim>\<open>.zst\<close>, \<^verbatim>\<open>.lz\<close>, whose
  concurrency is the number of processing units or 1 if that is less, and whose three
  compiled patterns are nil.
\<close>

theorem NewConfig_defaults:
  "let cfg = NewConfig numCPU :: 're Config in
     SearchDir cfg = ''.''
     \<and> (\<exists>re. regexp_Compile (FileRegex cfg) = Inr re
            \<and> (\<forall>name. MatchString re name \<longleftrightarrow> suffix ''.log'' name))
     \<and> Deduplicate cfg = False
     \<and> Output cfg = ''text''
     \<and> (\<exists>re. regexp_Compile (ArchiveRegex cfg) = Inr re
            \<and> (\<forall>name. MatchString re name \<longleftrightarrow>
                  suffix ''.7z'' name \<or> suffix ''.bz2'' name \<or> suffix ''.gz'' name
                  \<or> suffix ''.tar'' name \<or> suffix ''.xz'' name \<or> suffix ''.zip'' name
                  \<or> suffix ''.zst'' name \<or> suffix ''.lz'' name))
     \<and> Concurrency cfg = max 1 numCPU
     \<and> PhraseRegexp cfg = None \<and> FileRegexp cfg = None \<and> ArchiveRegexp cfg = None"
proof -
  have f: "FileRegex (NewConfig numCPU :: 're Config) = ''.*'' @ [CHR 0x5C] @ ''.log$''"
    and a: "ArchiveRegex (NewConfig numCPU :: 're Config)
              = [CHR 0x5C] @ ''.(7z|bz2|gz|tar|xz|zip|xz|zst|lz)$''"
    by (simp_all add: NewConfig_def)
  have "\<exists>re. regexp_Compile (FileRegex (NewConfig numCPU :: 're Config)) = Inr re
            \<and> (\<forall>name. MatchString re name \<longleftrightarrow> suffix ''.log'' name)"
    unfolding f compile_file using MatchString_file_rexp by blast
  moreover
  have "\<exists>re. regexp_Compile (ArchiveRegex (NewConfig numCPU :: 're Config)) = Inr re
            \<and> (\<forall>name. MatchString re name \<longleftrightarrow>
                  suffix ''.7z'' name \<or> suffix ''.bz2'' name \<or> suffix ''.gz'' name
                  \<or> suffix ''.tar'' name \<or> suffix ''.xz'' name \<or> suffix ''.zip'' name
                  \<or> suffix ''.zst'' name \<or> suffix ''.lz'' name)"
    unfolding a compile_archive using MatchString_archive_rexp by blast
  moreover
  have "SearchDir (NewConfig numCPU :: 're Config) = ''.''"
    "Deduplicate (NewConfig numCPU :: 're Config) = False"
    "Output (NewConfig numCPU :: 're Config) = ''text''"
    "Concurrency (NewConfig numCPU :: 're Config) = max 1 numCPU"
    "PhraseRegexp (NewConfig numCPU :: 're Config) = None"
    "FileRegexp (NewConfig numCPU :: 're Config) = None"
    "ArchiveRegexp (NewConfig numCPU :: 're Config) = None"
    by (simp_all add: NewConfig_def FormatText_def)
  ultimately show ?thesis
    unfolding Let_def by (intro conjI)
qed

theorem NewConfig_defaults_witness:
  "Concurrency (NewConfig 0 :: rexp Config) = 1
   \<and> Concurrency (NewConfig 8 :: rexp Config) = 8
   \<and> (\<exists>re. regexp_Compile (FileRegex (NewConfig 8 :: rexp Config)) = Inr re
          \<and> MatchString re ''server.log'' \<and> \<not> MatchString re ''server.log.gz'')
   \<and> (\<exists>re. regexp_Compile (ArchiveRegex (NewConfig 8 :: rexp Config)) = Inr re
          \<and> MatchString re ''server.log.gz'' \<and> \<not> MatchString re ''server.log'')"
proof -
  have s: "suffix ''.log'' ''server.log''" "\<not> suffix ''.log'' ''server.log.gz''"
    "suffix ''.gz'' ''server.log.gz''"
    "\<not> (suffix ''.7z'' ''server.log'' \<or> suffix ''.bz2'' ''server.log''
        \<or> suffix ''.gz'' ''server.log'' \<or> suffix ''.tar'' ''server.log''
        \<or> suffix ''.xz'' ''server.log'' \<or> suffix ''.zip'' ''server.log''
        \<or> suffix ''.zst'' ''server.log'' \<or> suffix ''.lz'' ''server.log'')"
    by (simp_all add: suffix_to_prefix)
  have 8: "let cfg = NewConfig 8 :: rexp Config in
     SearchDir cfg = ''.''
     \<and> (\<exists>re. regexp_Compile (FileRegex cfg) = Inr re
            \<and> (\<forall>name. MatchString re name \<longleftrightarrow> suffix ''.log'' name))
     \<and> Deduplicate cfg = False
     \<and> Output cfg = ''text''
     \<and> (\<exists>re. regexp_Compile (ArchiveRegex cfg) = Inr re
            \<and> (\<forall>name. MatchString re name \<longleftrightarrow>
                  suffix ''.7z'' name \<or> suffix ''.bz2'' name \<or> suffix ''.gz'' name
                  \<or> suffix ''.tar'' name \<or> suffix ''.xz'' name \<or> suffix ''.zip'' name
                  \<or> suffix ''.zst'' name \<or> suffix ''.lz'' name))
     \<and> Concurrency cfg = max 1 8
     \<and> PhraseRegexp cfg = None \<and> FileRegexp cfg = None \<and> ArchiveRegexp cfg = None"
    by (rule NewConfig_defaults)
  from 8 obtain re1 where 1: "regexp_Compile (FileRegex (NewConfig 8 :: rexp Config)) = Inr re1"
    "\<forall>name. MatchString re1 name \<longleftrightarrow> suffix ''.log'' name"
    unfolding Let_def by blast
  from 8 obtain re2 where 2: "regexp_Compile (ArchiveRegex (NewConfig 8 :: rexp Config)) = Inr re2"
    "\<forall>name. MatchString re2 name \<longleftrightarrow>
        suffix ''.7z'' name \<or> suffix ''.bz2'' name \<or> suffix ''.gz'' name
        \<or> suffix ''.tar'' name \<or> suffix ''.xz'' name \<or> suffix ''.zip'' name
        \<or> suffix ''.zst'' name \<or> suffix ''.lz'' name"
    unfolding Let_def by blast
  from 1 s(1,2) have f: "\<exists>re. regexp_Compile (FileRegex (NewConfig 8 :: rexp Config)) = Inr re
          \<and> MatchString re ''server.log'' \<and> \<not> MatchString re ''server.log.gz''"
    by blast
  from 2 s(3,4) have a: "\<exists>re. regexp_Compile (ArchiveRegex (NewConfig 8 :: rexp Config)) = Inr re
          \<and> MatchString re ''server.log.gz'' \<and> \<not> MatchString re ''server.log''"
    by blast
  have "Concurrency (NewConfig 0 :: rexp Config) = 1" "Concurrency (NewConfig 8 :: rexp Config) = 8"
    by (simp_all add: NewConfig_def)
  with f a show ?thesis by (intro conjI)
qed

end
